theory Spec2Isabelle
  imports Main "HOL-Library.Sublist"
begin

section \<open>Python values and their text\<close>

text \<open>
  The handlers of \<^verbatim>\<open>main.py\<close> receive and return JSON: a request body is a
  \<^verbatim>\<open>Dict[str, Any]\<close>. A value is one of the JSON shapes; a dict keeps its items in
  insertion order, as Python's does. A \<^verbatim>\<open>str\<close> is a list of characters, each \<^typ>\<open>char\<close>
  read as the code point of the same number (U+0000 to U+00FF). A float is carried as the
  text that \<^verbatim>\<open>repr\<close> gives for it. One more shape is not JSON: the \<^verbatim>\<open>ObjectId\<close> a
  document store puts under \<^verbatim>\<open>_id\<close>, which \<^verbatim>\<open>list_items\<close> turns into a string; it is
  carried as its hexadecimal digits.
\<close>

datatype pyval =
    PNone
  | PBool bool
  | PInt int
  | PFloat string
  | PStr string
  | PList "pyval list"
  | PDict "(string \<times> pyval) list"
  | PObjectId string

type_synonym pydict = "(string \<times> pyval) list"

text \<open>\<^verbatim>\<open>d.get(k)\<close>, \<^verbatim>\<open>d.get(k, default)\<close> and \<^verbatim>\<open>d[k] = v\<close> on a dict.\<close>

definition dict_get :: "pydict \<Rightarrow> string \<Rightarrow> pyval option" where
  "dict_get d k = map_of d k"

definition dict_get_default :: "pydict \<Rightarrow> string \<Rightarrow> pyval \<Rightarrow> pyval" where
  "dict_get_default d k dflt = (case map_of d k of None \<Rightarrow> dflt | Some v \<Rightarrow> v)"

fun dict_set :: "string \<Rightarrow> pyval \<Rightarrow> pydict \<Rightarrow> pydict" where
  "dict_set k v [] = [(k, v)]"
| "dict_set k v (p # ps) = (if fst p = k then (k, v) # ps else p # dict_set k v ps)"

text \<open>\<^verbatim>\<open>str(n)\<close> for an integer: decimal digits, most significant first.\<close>

definition digit_char :: "nat \<Rightarrow> char" where
  "digit_char d = char_of (of_char (CHR ''0'') + d)"

fun decimal :: "nat \<Rightarrow> string" where
  "decimal n = (if n < 10 then [digit_char n] else decimal (n div 10) @ [digit_char (n mod 10)])"

declare decimal.simps [simp del]

definition int_str :: "int \<Rightarrow> string" where
  "int_str i = (if i < 0 then CHR ''-'' # decimal (nat (- i)) else decimal (nat i))"

text \<open>
  \<^verbatim>\<open>repr\<close> of a \<^verbatim>\<open>str\<close>: the text between quotes, the quote being \<^verbatim>\<open>"\<close> only when the
  text holds a \<^verbatim>\<open>'\<close> and no \<^verbatim>\<open>"\<close>; the backslash, the chosen quote, and every character
  that is not printable are escaped. Below U+0100 the characters that are not printable
  are the controls U+0000 to U+001F and U+007F to U+009F, the no-break space U+00A0 and
  the soft hyphen U+00AD.
\<close>

definition hex_digit :: "nat \<Rightarrow> char" where
  "hex_digit d = (if d < 10 then digit_char d else char_of (of_char (CHR ''a'') + (d - 10)))"

definition hex_escape :: "char \<Rightarrow> string" where
  "hex_escape c = [CHR 0x5C, CHR ''x'', hex_digit (of_char c div 16), hex_digit (of_char c mod 16)]"

definition printable :: "char \<Rightarrow> bool" where
  "printable c = (let n = (of_char c :: nat) in
     32 \<le> n \<and> n \<noteq> 127 \<and> \<not> (128 \<le> n \<and> n \<le> 160) \<and> n \<noteq> 173)"

definition repr_char :: "char \<Rightarrow> char \<Rightarrow> string" where
  "repr_char quote c =
     (if c = quote \<or> c = CHR 0x5C then [CHR 0x5C, c]
      else if c = CHR 0x09 then [CHR 0x5C, CHR ''t'']
      else if c = CHR 0x0A then [CHR 0x5C, CHR ''n'']
      else if c = CHR 0x0D then [CHR 0x5C, CHR ''r'']
      else if printable c then [c]
      else hex_escape c)"

definition str_repr :: "string \<Rightarrow> string" where
  "str_repr s =
     (let quote = (if CHR 0x27 \<in> set s \<and> CHR 0x22 \<notin> set s then CHR 0x22 else CHR 0x27)
      in quote # concat (map (repr_char quote) s) @ [quote])"

text \<open>\<^verbatim>\<open>', '.join(parts)\<close>.\<close>

fun join_comma :: "string list \<Rightarrow> string" where
  "join_comma [] = []"
| "join_comma [p] = p"
| "join_comma (p # q # ps) = p @ '', '' @ join_comma (q # ps)"

text \<open>
  \<^verbatim>\<open>repr(v)\<close> and \<^verbatim>\<open>str(v)\<close>: they differ on a \<^verbatim>\<open>str\<close>, and on an \<^verbatim>\<open>ObjectId\<close>, whose
  \<^verbatim>\<open>str\<close> is its digits and whose \<^verbatim>\<open>repr\<close> is \<^verbatim>\<open>ObjectId('...')\<close> around them.
\<close>

fun py_repr :: "pyval \<Rightarrow> string" where
  "py_repr PNone = ''None''"
| "py_repr (PBool b) = (if b then ''True'' else ''False'')"
| "py_repr (PInt i) = int_str i"
| "py_repr (PFloat text) = text"
| "py_repr (PStr s) = str_repr s"
| "py_repr (PList vs) = ''['' @ join_comma (map py_repr vs) @ '']''"
| "py_repr (PDict kvs) =
     ''{'' @ join_comma (map (\<lambda>kv. str_repr (fst kv) @ '': '' @ py_repr (snd kv)) kvs) @ ''}''"
| "py_repr (PObjectId digits) = ''ObjectId('' @ str_repr digits @ '')''"

definition py_str :: "pyval \<Rightarrow> string" where
  "py_str v = (case v of PStr s \<Rightarrow> s | PObjectId digits \<Rightarrow> digits | _ \<Rightarrow> py_repr v)"

text \<open>\<^verbatim>\<open>type(v).__name__\<close>, as error messages quote it.\<close>

fun type_name :: "pyval \<Rightarrow> string" where
  "type_name PNone = ''NoneType''"
| "type_name (PBool b) = ''bool''"
| "type_name (PInt i) = ''int''"
| "type_name (PFloat text) = ''float''"
| "type_name (PStr s) = ''str''"
| "type_name (PList vs) = ''list''"
| "type_name (PDict kvs) = ''dict''"
| "type_name (PObjectId digits) = ''ObjectId''"

section \<open>Exceptions\<close>

text \<open>
  The exceptions the handlers can meet, each with the value or message it was raised
  with. \<^verbatim>\<open>StoreError\<close> is the failure of the document store adapter.
\<close>

datatype exn =
    KeyError pyval
  | IndexError string
  | ValueError string
  | TypeError string
  | AttributeError string
  | StoreError string
  | OtherException string

text \<open>\<^verbatim>\<open>str(e)\<close>: the message, and for a \<^verbatim>\<open>KeyError\<close> the \<^verbatim>\<open>repr\<close> of the key.\<close>

fun exn_str :: "exn \<Rightarrow> string" where
  "exn_str (KeyError k) = py_repr k"
| "exn_str (IndexError m) = m"
| "exn_str (ValueError m) = m"
| "exn_str (TypeError m) = m"
| "exn_str (AttributeError m) = m"
| "exn_str (StoreError m) = m"
| "exn_str (OtherException m) = m"

section \<open>\<^verbatim>\<open>str.format\<close>\<close>

text \<open>
  \<^verbatim>\<open>generate_document\<close> merges with \<^verbatim>\<open>body.format(**variables)\<close>: no positional
  argument, the variables as keyword arguments. This section follows CPython's
  implementation of \<^verbatim>\<open>str.format\<close> (3.8 or later, 64 bit): the iterator over literal text
  and replacement fields, the split of a field into name, conversion and format
  specification, the expansion of fields nested in a format specification, and the
  lookup of the field's name.

  Two things are the interpreter's and are taken as parameters: what the accessors
  after a name (\<^verbatim>\<open>.attr\<close>, \<^verbatim>\<open>[key]\<close>) resolve to, and what \<^verbatim>\<open>__format__\<close> does with a
  format specification that is not empty. An object reached through accessors need not
  be a JSON value; it is known by its \<^verbatim>\<open>str\<close>, its \<^verbatim>\<open>repr\<close> and its \<^verbatim>\<open>__format__\<close>.
\<close>

record pyobject =
  obj_str :: string
  obj_repr :: string
  obj_format :: "string \<Rightarrow> exn + string"

record runtime =
  rt_resolve :: "pyval \<Rightarrow> string \<Rightarrow> exn + pyobject"
  rt_format :: "pyval \<Rightarrow> string \<Rightarrow> exn + string"

text \<open>A JSON value as an object: with an empty format specification, \<^verbatim>\<open>format(v, '')\<close> is
  \<^verbatim>\<open>str(v)\<close> for each JSON type.\<close>

definition the_object :: "runtime \<Rightarrow> pyval \<Rightarrow> pyobject" where
  "the_object rt v =
     \<lparr> obj_str = py_str v, obj_repr = py_repr v,
       obj_format = (\<lambda>spec. if spec = [] then Inr (py_str v) else rt_format rt v spec) \<rparr>"

subsection \<open>The iterator over literal text and replacement fields\<close>

record replacement_field =
  field_name :: string
  conversion :: "char option"
  format_spec :: string
  format_spec_needs_expanding :: bool

definition brace :: "char \<Rightarrow> bool" where
  "brace c = (c = CHR ''{'' \<or> c = CHR ''}'')"

definition cons_to :: "char \<Rightarrow> exn + (string \<times> 'a) \<Rightarrow> exn + (string \<times> 'a)" where
  "cons_to c r = (case r of Inl e \<Rightarrow> Inl e | Inr (text, x) \<Rightarrow> Inr (c # text, x))"

text \<open>
  The first loop of \<^verbatim>\<open>parse_field\<close>: the field name runs to the first \<^verbatim>\<open>}\<close>, \<^verbatim>\<open>:\<close> or \<^verbatim>\<open>!\<close>
  outside square brackets. After a \<^verbatim>\<open>[\<close> everything up to the next \<^verbatim>\<open>]\<close> is skipped
  unread (the flag). The result is the name, the character that ended it, and the rest.
\<close>

fun field_name_scan :: "bool \<Rightarrow> string \<Rightarrow> exn + (string \<times> char \<times> string)" where
  "field_name_scan in_brackets [] = Inl (ValueError ''expected '}' before end of string'')"
| "field_name_scan True (c # cs) = cons_to c (field_name_scan (c \<noteq> CHR '']'') cs)"
| "field_name_scan False (c # cs) =
     (if c = CHR ''{'' then Inl (ValueError ''unexpected '{' in field name'')
      else if c = CHR ''['' then cons_to c (field_name_scan True cs)
      else if c = CHR ''}'' \<or> c = CHR '':'' \<or> c = CHR ''!'' then Inr ([], c, cs)
      else cons_to c (field_name_scan False cs))"

text \<open>
  The second loop of \<^verbatim>\<open>parse_field\<close>: the format specification runs to the \<^verbatim>\<open>}\<close> that
  closes the field, counting nested braces; a \<^verbatim>\<open>{\<close> inside marks it as needing expansion.
\<close>

fun format_spec_scan :: "nat \<Rightarrow> string \<Rightarrow> exn + (string \<times> bool \<times> string)" where
  "format_spec_scan count [] = Inl (ValueError ''unmatched '{' in format spec'')"
| "format_spec_scan count (c # cs) =
     (if c = CHR ''{'' then
        (case format_spec_scan (count + 1) cs of
           Inl e \<Rightarrow> Inl e
         | Inr (spec, expanding, rest) \<Rightarrow> Inr (c # spec, True, rest))
      else if c = CHR ''}'' then
        (if count - 1 = 0 then Inr ([], False, cs)
         else cons_to c (format_spec_scan (count - 1) cs))
      else cons_to c (format_spec_scan count cs))"

definition parse_format_spec ::
  "string \<Rightarrow> char option \<Rightarrow> string \<Rightarrow> exn + (replacement_field \<times> string)" where
  "parse_format_spec name conv s =
     (case format_spec_scan 1 s of
        Inl e \<Rightarrow> Inl e
      | Inr (spec, expanding, rest) \<Rightarrow>
          Inr (\<lparr> field_name = name, conversion = conv, format_spec = spec,
                 format_spec_needs_expanding = expanding \<rparr>, rest))"

definition parse_field :: "string \<Rightarrow> exn + (replacement_field \<times> string)" where
  "parse_field s =
     (case field_name_scan False s of
        Inl e \<Rightarrow> Inl e
      | Inr (name, c, rest) \<Rightarrow>
          if c = CHR ''!'' then
            (case rest of
               [] \<Rightarrow> Inl (ValueError ''end of string while looking for conversion specifier'')
             | conv # rest1 \<Rightarrow>
                 (case rest1 of
                    [] \<Rightarrow> parse_format_spec name (Some conv) []
                  | c2 # rest2 \<Rightarrow>
                      if c2 = CHR ''}'' then
                        Inr (\<lparr> field_name = name, conversion = Some conv, format_spec = [],
                               format_spec_needs_expanding = False \<rparr>, rest2)
                      else if c2 \<noteq> CHR '':'' then
                        Inl (ValueError ''expected ':' after conversion specifier'')
                      else parse_format_spec name (Some conv) rest2))
          else if c = CHR '':'' then parse_format_spec name None rest
          else Inr (\<lparr> field_name = name, conversion = None, format_spec = [],
                      format_spec_needs_expanding = False \<rparr>, rest))"

text \<open>
  \<^verbatim>\<open>MarkupIterator_next\<close>: \<open>None\<close> at the end of the input; otherwise the literal text up
  to the next brace, the replacement field that follows it (if one does) and the rest of
  the input. A doubled brace is one literal brace and ends the literal; a single \<^verbatim>\<open>}\<close>, or
  a \<^verbatim>\<open>{\<close> at the very end, is an error.
\<close>

definition MarkupIterator_next ::
  "string \<Rightarrow> exn + (string \<times> replacement_field option \<times> string) option" where
  "MarkupIterator_next s =
     (if s = [] then Inr None
      else
        let literal = takeWhile (\<lambda>c. \<not> brace c) s in
        (case dropWhile (\<lambda>c. \<not> brace c) s of
           [] \<Rightarrow> Inr (Some (literal, None, []))
         | c # after \<Rightarrow>
             if c = CHR ''}'' \<and> (after = [] \<or> hd after \<noteq> c) then
               Inl (ValueError ''Single '}' encountered in format string'')
             else if after = [] then
               Inl (ValueError ''Single '{' encountered in format string'')
             else if hd after = c then Inr (Some (literal @ [c], None, tl after))
             else
               (case parse_field after of
                  Inl e \<Rightarrow> Inl e
                | Inr (f, rest) \<Rightarrow> Inr (Some (literal, Some f, rest)))))"

subsection \<open>Looking a field up and rendering it\<close>

text \<open>
  \<^verbatim>\<open>get_integer\<close>: the number a text of decimal digits spells, \<open>None\<close> when the text is
  empty or has another character, an error beyond \<^verbatim>\<open>PY_SSIZE_T_MAX\<close>.
\<close>

definition PY_SSIZE_T_MAX :: nat where
  "PY_SSIZE_T_MAX = 2 ^ 63 - 1"

definition digitval :: "char \<Rightarrow> nat option" where
  "digitval c =
     (if of_char (CHR ''0'') \<le> (of_char c :: nat) \<and> (of_char c :: nat) \<le> of_char (CHR ''9'')
      then Some (of_char c - of_char (CHR ''0'')) else None)"

fun get_integer_loop :: "nat \<Rightarrow> string \<Rightarrow> exn + nat option" where
  "get_integer_loop accumulator [] = Inr (Some accumulator)"
| "get_integer_loop accumulator (c # cs) =
     (case digitval c of
        None \<Rightarrow> Inr None
      | Some d \<Rightarrow>
          if accumulator > (PY_SSIZE_T_MAX - d) div 10 then
            Inl (ValueError ''Too many decimal digits in format string'')
          else get_integer_loop (accumulator * 10 + d) cs)"

definition get_integer :: "string \<Rightarrow> exn + nat option" where
  "get_integer s = (if s = [] then Inr None else get_integer_loop 0 s)"

text \<open>
  \<^verbatim>\<open>get_field_object\<close>: the name up to the first \<^verbatim>\<open>.\<close> or \<^verbatim>\<open>[\<close> is looked up; the rest,
  when there is one, is for the interpreter to resolve. An empty or numeric first part
  indexes the positional arguments, of which \<^verbatim>\<open>generate_document\<close> passes none: the index
  is out of range whatever it is (for an empty name it is the automatic number, 0, since
  no earlier numbered field can have been rendered). Anything else is a key of the
  keyword arguments.
\<close>

definition accessor_start :: "char \<Rightarrow> bool" where
  "accessor_start c = (c = CHR ''.'' \<or> c = CHR ''['')"

definition out_of_range :: "nat \<Rightarrow> exn" where
  "out_of_range i =
     IndexError (''Replacement index '' @ decimal i @ '' out of range for positional args tuple'')"

definition get_field_object :: "runtime \<Rightarrow> pydict \<Rightarrow> string \<Rightarrow> exn + pyobject" where
  "get_field_object rt kwargs name =
     (let first = takeWhile (\<lambda>c. \<not> accessor_start c) name;
          rest = dropWhile (\<lambda>c. \<not> accessor_start c) name in
      case get_integer first of
        Inl e \<Rightarrow> Inl e
      | Inr first_idx \<Rightarrow>
          if first = [] then Inl (out_of_range 0)
          else
            (case first_idx of
               Some i \<Rightarrow> Inl (out_of_range i)
             | None \<Rightarrow>
                 (case map_of kwargs first of
                    None \<Rightarrow> Inl (KeyError (PStr first))
                  | Some v \<Rightarrow> if rest = [] then Inr (the_object rt v) else rt_resolve rt v rest)))"

text \<open>\<^verbatim>\<open>do_conversion\<close>: \<^verbatim>\<open>!r\<close>, \<^verbatim>\<open>!s\<close> and \<^verbatim>\<open>!a\<close> turn the object into a \<^verbatim>\<open>str\<close>.\<close>

definition hex :: "nat \<Rightarrow> string" where
  "hex n = (if n < 16 then [hex_digit n] else [hex_digit (n div 16), hex_digit (n mod 16)])"

definition py_ascii :: "string \<Rightarrow> string" where
  "py_ascii r = concat (map (\<lambda>c. if (of_char c :: nat) < 128 then [c] else hex_escape c) r)"

definition do_conversion :: "runtime \<Rightarrow> pyobject \<Rightarrow> char \<Rightarrow> exn + pyobject" where
  "do_conversion rt obj c =
     (if c = CHR ''r'' then Inr (the_object rt (PStr (obj_repr obj)))
      else if c = CHR ''s'' then Inr (the_object rt (PStr (obj_str obj)))
      else if c = CHR ''a'' then Inr (the_object rt (PStr (py_ascii (obj_repr obj))))
      else if 32 < (of_char c :: nat) \<and> (of_char c :: nat) < 127 then
        Inl (ValueError (''Unknown conversion specifier '' @ [c]))
      else
        Inl (ValueError (''Unknown conversion specifier '' @ [CHR 0x5C, CHR ''x''] @ hex (of_char c))))"

text \<open>
  \<^verbatim>\<open>output_markup\<close>: look the field up, convert, expand the format specification when
  it holds fields of its own (\<open>expand\<close> is \<^verbatim>\<open>build_string\<close> one level down), render.
  The parser's "no conversion" is the character U+0000, so a conversion written as that
  character converts nothing.
\<close>

definition output_markup ::
  "(string \<Rightarrow> exn + string) \<Rightarrow> runtime \<Rightarrow> pydict \<Rightarrow> replacement_field \<Rightarrow> exn + string" where
  "output_markup expand rt kwargs f =
     (case get_field_object rt kwargs (field_name f) of
        Inl e \<Rightarrow> Inl e
      | Inr fieldobj \<Rightarrow>
          (case (case conversion f of
                   None \<Rightarrow> Inr fieldobj
                 | Some c \<Rightarrow> if c = CHR 0x00 then Inr fieldobj else do_conversion rt fieldobj c) of
             Inl e \<Rightarrow> Inl e
           | Inr converted \<Rightarrow>
               (case (if format_spec_needs_expanding f then expand (format_spec f)
                      else Inr (format_spec f)) of
                  Inl e \<Rightarrow> Inl e
                | Inr actual_format_spec \<Rightarrow> obj_format converted actual_format_spec)))"

lemma cons_to_Inr:
  "cons_to c r = Inr (text, x) \<Longrightarrow> \<exists>text'. r = Inr (text', x) \<and> text = c # text'"
  by (auto simp: cons_to_def split: sum.splits)

lemma field_name_scan_shorter:
  "field_name_scan b s = Inr (name, t, rest) \<Longrightarrow> length rest < length s"
proof (induction b s arbitrary: name rule: field_name_scan.induct)
  case (1 in_brackets)
  then show ?case by simp
next
  case (2 c cs)
  from "2.prems" obtain name' where "field_name_scan (c \<noteq> CHR '']'') cs = Inr (name', t, rest)"
    by (auto dest: cons_to_Inr)
  from "2.IH" [OF this] show ?case by simp
next
  case (3 c cs)
  show ?case
  proof (cases "c = CHR ''[''")
    case True
    with "3.prems" obtain name' where "field_name_scan True cs = Inr (name', t, rest)"
      by (auto dest: cons_to_Inr)
    moreover from True have "c \<noteq> CHR ''{''" by simp
    ultimately show ?thesis using "3.IH"(1) True by fastforce
  next
    case False
    show ?thesis
    proof (cases "c = CHR ''}'' \<or> c = CHR '':'' \<or> c = CHR ''!''")
      case True
      with "3.prems" False show ?thesis by (auto split: if_splits)
    next
      case stop: False
      with "3.prems" False have nb: "c \<noteq> CHR ''{''" by (auto split: if_splits)
      with "3.prems" False stop obtain name' where "field_name_scan False cs = Inr (name', t, rest)"
        by (auto dest: cons_to_Inr)
      from "3.IH"(2) [OF nb False stop this] show ?thesis by simp
    qed
  qed
qed

lemma format_spec_scan_shorter:
  "format_spec_scan count s = Inr (spec, expanding, rest) \<Longrightarrow> length rest < length s"
proof (induction s arbitrary: count spec expanding)
  case Nil
  then show ?case by simp
next
  case (Cons c cs)
  then show ?case
    by (fastforce simp: cons_to_def split: if_splits sum.splits prod.splits)
qed

lemma parse_format_spec_shorter:
  "parse_format_spec name conv s = Inr (f, rest) \<Longrightarrow> length rest < length s"
  by (auto simp: parse_format_spec_def split: sum.splits dest: format_spec_scan_shorter)

lemma parse_field_shorter:
  "parse_field s = Inr (f, rest) \<Longrightarrow> length rest < length s"
  unfolding parse_field_def
  by (auto split: sum.splits list.splits if_splits
      dest!: field_name_scan_shorter parse_format_spec_shorter)

lemma MarkupIterator_next_shorter:
  assumes "MarkupIterator_next s = Inr (Some (literal, f, rest))"
  shows "length rest < length s"
proof -
  have le: "length (dropWhile (\<lambda>c. \<not> brace c) s) \<le> length s"
    by (rule length_dropWhile_le)
  from assms have ne: "s \<noteq> []"
    by (auto simp: MarkupIterator_next_def)
  show ?thesis
  proof (cases "dropWhile (\<lambda>c. \<not> brace c) s")
    case Nil
    with assms ne show ?thesis
      by (auto simp: MarkupIterator_next_def Let_def)
  next
    case (Cons c after)
    with le have len: "Suc (length after) \<le> length s" by simp
    from assms ne Cons have
      "(after \<noteq> [] \<and> rest = tl after) \<or> (\<exists>g. parse_field after = Inr (g, rest))"
      by (auto simp: MarkupIterator_next_def Let_def split: if_splits sum.splits)
    then show ?thesis
    proof
      assume "after \<noteq> [] \<and> rest = tl after"
      with len show ?thesis by (cases after) auto
    next
      assume "\<exists>g. parse_field after = Inr (g, rest)"
      then obtain g where "parse_field after = Inr (g, rest)" ..
      from parse_field_shorter [OF this] len show ?thesis by simp
    qed
  qed
qed

text \<open>
  \<^verbatim>\<open>do_markup\<close>: the loop over the iterator, writing each literal and each rendered
  field in turn; the first error ends it and nothing is returned.
\<close>

function do_markup ::
  "(string \<Rightarrow> exn + string) \<Rightarrow> runtime \<Rightarrow> pydict \<Rightarrow> string \<Rightarrow> exn + string" where
  "do_markup expand rt kwargs s =
     (case MarkupIterator_next s of
        Inl e \<Rightarrow> Inl e
      | Inr None \<Rightarrow> Inr []
      | Inr (Some (literal, field, rest)) \<Rightarrow>
          (case (case field of None \<Rightarrow> Inr [] | Some f \<Rightarrow> output_markup expand rt kwargs f) of
             Inl e \<Rightarrow> Inl e
           | Inr out \<Rightarrow>
               (case do_markup expand rt kwargs rest of
                  Inl e \<Rightarrow> Inl e
                | Inr following \<Rightarrow> Inr (literal @ out @ following))))"
  by pat_completeness auto
termination
  by (relation "measure (\<lambda>(expand, rt, kwargs, s). length s)")
     (auto dest: MarkupIterator_next_shorter)

declare do_markup.simps [simp del]

text \<open>
  \<^verbatim>\<open>build_string\<close> with its recursion depth: \<^verbatim>\<open>str.format\<close> starts at depth 2, and a
  format specification is expanded one level down.
\<close>

fun build_string :: "runtime \<Rightarrow> pydict \<Rightarrow> nat \<Rightarrow> string \<Rightarrow> exn + string" where
  "build_string rt kwargs 0 s = Inl (ValueError ''Max string recursion exceeded'')"
| "build_string rt kwargs (Suc depth) s = do_markup (build_string rt kwargs depth) rt kwargs s"

text \<open>\<^verbatim>\<open>s.format(**kwargs)\<close>.\<close>

definition str_format :: "runtime \<Rightarrow> string \<Rightarrow> pydict \<Rightarrow> exn + string" where
  "str_format rt s kwargs = build_string rt kwargs 2 s"

section \<open>The default-template catalog\<close>

text \<open>
  \<^verbatim>\<open>default_templates()\<close> of \<^verbatim>\<open>main.py\<close>: it takes no argument and returns a literal list
  of three dicts. The import of \<^verbatim>\<open>database\<close> at the top of the module is not used by it.
\<close>

definition default_templates :: "pydict list" where
  \<open>default_templates =
    [ [ (''name'', PStr ''Mutual NDA''),
        (''category'', PStr ''contract''),
        (''variables'', PList [PStr ''party_a_name'', PStr ''party_b_name'',
                              PStr ''effective_date'', PStr ''jurisdiction'']),
        (''body'', PStr
          (''This Mutual Non-Disclosure Agreement (the "Agreement") is made effective on {effective_date} between {party_a_name} and {party_b_name}. ''
           @ ''Each party agrees to hold Confidential Information in strict confidence and not to disclose it to any third party... Governing law: {jurisdiction}.'')) ],
      [ (''name'', PStr ''Advisor Agreement''),
        (''category'', PStr ''corporate''),
        (''variables'', PList [PStr ''company_name'', PStr ''advisor_name'',
                              PStr ''equity_percent'', PStr ''vesting_months'']),
        (''body'', PStr
          (''This Advisor Agreement is entered into by and between {company_name} and {advisor_name}. ''
           @ ''Compensation shall be equity equal to {equity_percent}% vesting over {vesting_months} months...'')) ],
      [ (''name'', PStr ''IP Assignment''),
        (''category'', PStr ''ip''),
        (''variables'', PList [PStr ''assignor_name'', PStr ''assignee_company'',
                              PStr ''effective_date'']),
        (''body'', PStr
          ''For good and valuable consideration, {assignor_name} hereby assigns to {assignee_company} all right, title, and interest in and to the Assigned Inventions effective {effective_date}...'') ] ]\<close>

section \<open>The document store adapter\<close>

text \<open>
  Modelled from the spec: the module \<^verbatim>\<open>database\<close> (\<^verbatim>\<open>create_document\<close>, \<^verbatim>\<open>get_documents\<close>
  and the connection \<^verbatim>\<open>db\<close>) is imported by \<^verbatim>\<open>main.py\<close> and is not among the sources. The
  store is what section 4.1 of the spec describes: a connection that may be unavailable,
  writes that may be rejected, and per collection the records in insertion order, each
  under an identifier the store assigned. Identifiers are the decimal numerals of a
  counter of the identifiers issued so far.
\<close>

record store =
  unavailable :: "string option"
  rejects :: "string \<Rightarrow> pydict \<Rightarrow> string option"
  documents :: "(string \<times> string \<times> pydict) list"
  issued :: nat

text \<open>
  Modelled from the spec: \<^verbatim>\<open>create(collection_name, record) -> id\<close> "inserts \<open>record\<close> into the
  named collection; returns the newly assigned unique identifier as a string. Fails with a
  StoreError if the underlying connection is unavailable or the write is rejected."
\<close>

definition create_document :: "string \<Rightarrow> pydict \<Rightarrow> store \<Rightarrow> (exn + string) \<times> store" where
  "create_document collection_name record db =
     (case unavailable db of
        Some why \<Rightarrow> (Inl (StoreError why), db)
      | None \<Rightarrow>
          (case rejects db collection_name record of
             Some why \<Rightarrow> (Inl (StoreError why), db)
           | None \<Rightarrow>
               let new_id = decimal (issued db) in
               (Inr new_id,
                db\<lparr> documents := documents db @ [(collection_name, new_id, record)],
                    issued := Suc (issued db) \<rparr>)))"

text \<open>
  Modelled from the spec: the records of one collection, in the store's order, which is
  the order of insertion.
\<close>

definition in_collection :: "string \<Rightarrow> store \<Rightarrow> (string \<times> string \<times> pydict) list" where
  "in_collection collection_name db = filter (\<lambda>r. fst r = collection_name) (documents db)"

text \<open>
  Modelled from the spec: \<^verbatim>\<open>list(collection_name, limit)\<close> "returns up to \<open>limit\<close> records
  from the named collection in store-native order [...]; each returned record's identifier
  is rendered as a string. Fails with StoreError on connection failure." A record comes
  back as its fields with the identifier under \<^verbatim>\<open>_id\<close>, the key \<^verbatim>\<open>list_items\<close> reads.
\<close>

definition get_documents :: "string \<Rightarrow> int \<Rightarrow> store \<Rightarrow> exn + pydict list" where
  "get_documents collection_name limit db =
     (case unavailable db of
        Some why \<Rightarrow> Inl (StoreError why)
      | None \<Rightarrow>
          Inr (map (\<lambda>r. dict_set ''_id'' (PStr (fst (snd r))) (snd (snd r)))
                 (take (nat limit) (in_collection collection_name db))))"

section \<open>The handlers of \<^verbatim>\<open>main.py\<close>\<close>

text \<open>\<^verbatim>\<open>HTTPException(status_code, detail)\<close>.\<close>

datatype http_error = HTTPException nat string

subsection \<open>\<^verbatim>\<open>POST /api/generate\<close>\<close>

record GeneratePayload =
  template :: pydict
  variables :: pydict

text \<open>
  \<^verbatim>\<open>body.format(**variables)\<close>, where \<^verbatim>\<open>body\<close> is whatever \<^verbatim>\<open>template.get("body", "")\<close> gave:
  only a \<^verbatim>\<open>str\<close> has the method.
\<close>

definition call_format :: "runtime \<Rightarrow> pyval \<Rightarrow> pydict \<Rightarrow> exn + string" where
  "call_format rt body kwargs =
     (case body of
        PStr s \<Rightarrow> str_format rt s kwargs
      | _ \<Rightarrow> Inl (AttributeError
                 ([CHR 0x27] @ type_name body @ [CHR 0x27] @
                  '' object has no attribute 'format'' @ [CHR 0x27])))"

text \<open>The two \<^verbatim>\<open>except\<close> clauses of \<^verbatim>\<open>generate_document\<close>.\<close>

definition generate_except :: "exn \<Rightarrow> http_error" where
  "generate_except e =
     (case e of
        KeyError k \<Rightarrow> HTTPException 400 (''Missing variable: '' @ exn_str e)
      | _ \<Rightarrow> HTTPException 400 (exn_str e))"

definition generate_document ::
  "runtime \<Rightarrow> GeneratePayload \<Rightarrow> store \<Rightarrow> (http_error + pydict) \<times> store" where
  "generate_document rt payload db =
     (let body = dict_get_default (template payload) ''body'' (PStr []) in
      case call_format rt body (variables payload) of
        Inl e \<Rightarrow> (Inl (generate_except e), db)
      | Inr filled \<Rightarrow>
          let doc = [ (''title'', dict_get_default (template payload) ''name'' (PStr ''Generated Document'')),
                      (''category'', dict_get_default (template payload) ''category'' (PStr ''contract'')),
                      (''content'', PStr filled),
                      (''template_id'', PNone),
                      (''variables'', PDict (variables payload)) ] in
          (case create_document ''document'' doc db of
             (Inl e, db') \<Rightarrow> (Inl (generate_except e), db')
           | (Inr new_id, db') \<Rightarrow>
               (Inr [(''id'', PStr new_id), (''content'', PStr filled)], db')))"

subsection \<open>\<^verbatim>\<open>POST\<close> and \<^verbatim>\<open>GET /api/collections/{collection}\<close>\<close>

record CreatePayload =
  data :: pydict

definition create_item ::
  "string \<Rightarrow> CreatePayload \<Rightarrow> store \<Rightarrow> (http_error + pydict) \<times> store" where
  "create_item collection payload db =
     (case create_document collection (data payload) db of
        (Inl e, db') \<Rightarrow> (Inl (HTTPException 400 (exn_str e)), db')
      | (Inr new_id, db') \<Rightarrow> (Inr [(''id'', PStr new_id)], db'))"

text \<open>The loop of \<^verbatim>\<open>list_items\<close>: \<^verbatim>\<open>d["_id"] = str(d.get("_id")); result.append(d)\<close>.\<close>

fun stringify_ids :: "pydict list \<Rightarrow> pydict list \<Rightarrow> pydict list" where
  "stringify_ids result [] = result"
| "stringify_ids result (d # docs) =
     stringify_ids
       (result @ [dict_set ''_id'' (PStr (py_str (case dict_get d ''_id'' of None \<Rightarrow> PNone | Some v \<Rightarrow> v))) d])
       docs"

text \<open>The query parameter \<^verbatim>\<open>limit: int = 50\<close> is \<open>None\<close> when the request has none.\<close>

definition list_items :: "string \<Rightarrow> int option \<Rightarrow> store \<Rightarrow> http_error + pydict list" where
  "list_items collection limit db =
     (case get_documents collection (case limit of None \<Rightarrow> 50 | Some n \<Rightarrow> n) db of
        Inl e \<Rightarrow> Inl (HTTPException 400 (exn_str e))
      | Inr docs \<Rightarrow> Inr (stringify_ids [] docs))"

subsection \<open>\<^verbatim>\<open>GET /test\<close>\<close>

text \<open>
  The status texts of \<^verbatim>\<open>test_database\<close> begin with a symbol beyond U+00FF: the check
  mark U+2705, the cross mark U+274C, or the warning sign U+26A0 with its variation
  selector U+FE0F. Such a text is the symbol and the characters after it.
\<close>

datatype mark = CheckMark | CrossMark | WarningSign

datatype pytext = Plain string | Marked mark string

record diagnostic =
  backend :: pytext
  database :: pytext
  database_url :: "pytext option"
  database_name :: "pytext option"
  connection_status :: string
  collections :: "string list"

text \<open>
  What \<^verbatim>\<open>test_database\<close> reads: the two environment variables, and the outcome of
  \<^verbatim>\<open>from database import db\<close>: an exception, or \<^verbatim>\<open>db\<close>, which is \<^verbatim>\<open>None\<close> or a connection
  with (perhaps) a \<^verbatim>\<open>name\<close> and with \<^verbatim>\<open>list_collection_names()\<close>, which may raise.
\<close>

record environ =
  DATABASE_URL :: "string option"
  DATABASE_NAME :: "string option"

record connection =
  name_attr :: "string option"
  list_collection_names :: "exn + string list"

datatype db_import = ImportRaises exn | Imported "connection option"

text \<open>\<^verbatim>\<open>"... Set" if os.getenv(VAR) else "... Not Set"\<close>: an empty value is falsy.\<close>

definition set_or_not :: "string option \<Rightarrow> pytext" where
  "set_or_not v =
     (if (case v of None \<Rightarrow> False | Some s \<Rightarrow> s \<noteq> []) then Marked CheckMark '' Set''
      else Marked CrossMark '' Not Set'')"

text \<open>
  \<^verbatim>\<open>test_database\<close>. The response is built up by assignments; each \<^verbatim>\<open>try\<close> block is a
  computation that may end in an exception (\<open>Inl\<close>), and its \<^verbatim>\<open>except Exception\<close> clause
  takes the exception and goes on with the response. The import is the first statement
  of the outer block, and \<^verbatim>\<open>list_collection_names()\<close> the first of the inner one, so an
  exception finds the response as the block found it. The last two assignments stand
  after both blocks.
\<close>

definition test_database :: "environ \<Rightarrow> db_import \<Rightarrow> exn + diagnostic" where
  "test_database env imp =
     (let response =
            \<lparr> backend = Marked CheckMark '' Running'',
              database = Marked CrossMark '' Not Available'',
              database_url = None,
              database_name = None,
              connection_status = ''Not Connected'',
              collections = [] \<rparr>;
          response =
            (case (case imp of
                     ImportRaises e \<Rightarrow> Inl e
                   | Imported None \<Rightarrow>
                       Inr (response\<lparr> database :=
                              Marked WarningSign ''  Available but not initialized'' \<rparr>)
                   | Imported (Some db) \<Rightarrow>
                       (let response =
                              response\<lparr> database := Marked CheckMark '' Connected & Working'',
                                         database_url := Some (set_or_not (DATABASE_URL env)),
                                         database_name :=
                                           Some (case name_attr db of
                                                   Some n \<Rightarrow> Plain n
                                                 | None \<Rightarrow> Marked CheckMark '' Connected''),
                                         connection_status := ''Connected'' \<rparr>
                        in case (case list_collection_names db of
                                   Inl e \<Rightarrow> Inl e
                                 | Inr names \<Rightarrow> Inr (response\<lparr> collections := take 10 names \<rparr>)) of
                             Inl e \<Rightarrow>
                               Inr (response\<lparr> database :=
                                      Marked WarningSign
                                        (''  Connected but Error: '' @ take 50 (exn_str e)) \<rparr>)
                           | Inr response \<Rightarrow> Inr response)) of
               Inl e \<Rightarrow>
                 response\<lparr> database := Marked CrossMark ('' Error: '' @ take 50 (exn_str e)) \<rparr>
             | Inr response \<Rightarrow> response)
      in Inr (response\<lparr> database_url := Some (set_or_not (DATABASE_URL env)),
                         database_name := Some (set_or_not (DATABASE_NAME env)) \<rparr>))"

subsection \<open>\<^verbatim>\<open>GET /schema\<close> and the declarations of \<^verbatim>\<open>schemas.py\<close>\<close>

text \<open>
  A model class is its name and, per field in declaration order, the field's annotation,
  which is all that \<^verbatim>\<open>schema_overview\<close> reads of \<^verbatim>\<open>model_fields\<close>.
\<close>

datatype annotation =
    Str
  | EmailStr
  | Date
  | Dict
  | Optional annotation
  | ListOf annotation
  | DictOf annotation annotation

record model =
  class_name :: string
  model_fields :: "(string \<times> annotation) list"

definition Client :: model where
  "Client = \<lparr> class_name = ''Client'', model_fields =
     [ (''name'', Str),
       (''email'', Optional EmailStr),
       (''phone'', Optional Str),
       (''company_type'', Optional Str),
       (''jurisdiction'', Optional Str),
       (''founders'', Optional (ListOf Dict)) ] \<rparr>"

definition Matter :: model where
  "Matter = \<lparr> class_name = ''Matter'', model_fields =
     [ (''client_id'', Str),
       (''title'', Str),
       (''status'', Str),
       (''description'', Optional Str),
       (''tags'', Optional (ListOf Str)) ] \<rparr>"

definition DocumentTemplate :: model where
  "DocumentTemplate = \<lparr> class_name = ''DocumentTemplate'', model_fields =
     [ (''name'', Str),
       (''category'', Str),
       (''variables'', ListOf Str),
       (''body'', Str) ] \<rparr>"

definition Document :: model where
  "Document = \<lparr> class_name = ''Document'', model_fields =
     [ (''client_id'', Optional Str),
       (''matter_id'', Optional Str),
       (''title'', Str),
       (''category'', Str),
       (''content'', Str),
       (''template_id'', Optional Str),
       (''variables'', Optional (DictOf Str Str)) ] \<rparr>"

definition Task :: model where
  "Task = \<lparr> class_name = ''Task'', model_fields =
     [ (''client_id'', Optional Str),
       (''matter_id'', Optional Str),
       (''title'', Str),
       (''status'', Str),
       (''due_date'', Optional Date),
       (''assignee'', Optional Str),
       (''notes'', Optional Str) ] \<rparr>"

text \<open>\<^verbatim>\<open>str.lower()\<close> below U+0100: A to Z, and U+00C0 to U+00DE but for the
  multiplication sign U+00D7, move up by 32.\<close>

definition lower_char :: "char \<Rightarrow> char" where
  "lower_char c =
     (let n = (of_char c :: nat) in
      if (65 \<le> n \<and> n \<le> 90) \<or> (192 \<le> n \<and> n \<le> 222 \<and> n \<noteq> 215) then char_of (n + 32) else c)"

definition lower :: "string \<Rightarrow> string" where
  "lower s = map lower_char s"

text \<open>
  \<^verbatim>\<open>model_info\<close>, the local function of \<^verbatim>\<open>schema_overview\<close>. The text \<^verbatim>\<open>str(field.annotation)\<close>
  is the interpreter's (it differs between versions of Python) and is the parameter
  \<open>describe\<close>.
\<close>

definition model_info :: "(annotation \<Rightarrow> string) \<Rightarrow> model \<Rightarrow> pydict" where
  "model_info describe m =
     (let fields = foldl (\<lambda>fields nf. dict_set (fst nf) (PStr (describe (snd nf))) fields) []
                     (model_fields m)
      in [(''name'', PStr (lower (class_name m))), (''fields'', PDict fields)])"

text \<open>
  \<^verbatim>\<open>schema_overview\<close>. Its \<^verbatim>\<open>try\<close> block imports the five classes above and reads their
  fields; \<open>raised\<close> is the exception the block ends in, if it ends in one (the import
  failing, or \<^verbatim>\<open>model_fields\<close> missing). The block assigns nothing outside itself, so
  the \<^verbatim>\<open>except\<close> clause sees the exception only.
\<close>

definition schema_overview :: "(annotation \<Rightarrow> string) \<Rightarrow> exn option \<Rightarrow> pydict" where
  "schema_overview describe raised =
     (case raised of
        Some e \<Rightarrow> [(''error'', PStr (exn_str e))]
      | None \<Rightarrow>
          [(''collections'',
            PList [ PDict (model_info describe Client),
                    PDict (model_info describe Matter),
                    PDict (model_info describe DocumentTemplate),
                    PDict (model_info describe Document),
                    PDict (model_info describe Task) ])])"

section \<open>Notions the properties are stated with\<close>

text \<open>
  Text without braces; a placeholder name that \<^verbatim>\<open>str.format\<close> reads as a plain keyword:
  not empty, not starting with a digit, and without any of the characters
  \<^verbatim>\<open>{ } [ ] . ! :\<close> (every identifier is one).
\<close>

definition brace_free :: "string \<Rightarrow> bool" where
  "brace_free s = list_all (\<lambda>c. \<not> brace c) s"

definition plain_key :: "string \<Rightarrow> bool" where
  "plain_key x = (x \<noteq> [] \<and> digitval (hd x) = None \<and> list_all (\<lambda>c. c \<notin> set ''{}[].!:'') x)"

text \<open>
  A template body as a sequence of literal texts and placeholders \<^verbatim>\<open>{x}\<close>; the body it
  spells; the text the spec asks of the merge, each placeholder replaced by \<^verbatim>\<open>str\<close> of its
  variable; and the condition that the texts are brace-free and every placeholder is a
  plain key with a value.
\<close>

datatype piece = Text string | Placeholder string

fun body_of :: "piece list \<Rightarrow> string" where
  "body_of [] = []"
| "body_of (Text t # ps) = t @ body_of ps"
| "body_of (Placeholder x # ps) = CHR ''{'' # x @ CHR ''}'' # body_of ps"

fun fill :: "pydict \<Rightarrow> piece list \<Rightarrow> string" where
  "fill kwargs [] = []"
| "fill kwargs (Text t # ps) = t @ fill kwargs ps"
| "fill kwargs (Placeholder x # ps) =
     (case map_of kwargs x of None \<Rightarrow> CHR ''{'' # x @ [CHR ''}''] | Some v \<Rightarrow> py_str v)
     @ fill kwargs ps"

fun supplied :: "pydict \<Rightarrow> piece list \<Rightarrow> bool" where
  "supplied kwargs [] = True"
| "supplied kwargs (Text t # ps) = (brace_free t \<and> supplied kwargs ps)"
| "supplied kwargs (Placeholder x # ps) =
     (plain_key x \<and> map_of kwargs x \<noteq> None \<and> supplied kwargs ps)"

text \<open>
  The Document record \<^verbatim>\<open>generate_document\<close> is expected to hand to the store for a
  payload and a merged text.
\<close>

definition persisted_document :: "GeneratePayload \<Rightarrow> string \<Rightarrow> pydict" where
  "persisted_document payload filled =
     [ (''title'', case map_of (template payload) ''name'' of
                     None \<Rightarrow> PStr ''Generated Document'' | Some v \<Rightarrow> v),
       (''category'', case map_of (template payload) ''category'' of
                        None \<Rightarrow> PStr ''contract'' | Some v \<Rightarrow> v),
       (''content'', PStr filled),
       (''template_id'', PNone),
       (''variables'', PDict (variables payload)) ]"

text \<open>The store takes a write: the connection is there and the write is not rejected.\<close>

definition accepts :: "store \<Rightarrow> string \<Rightarrow> pydict \<Rightarrow> bool" where
  "accepts db collection_name record =
     (unavailable db = None \<and> rejects db collection_name record = None)"

text \<open>The store after a write it took, and the identifier it gave.\<close>

definition next_id :: "store \<Rightarrow> string" where
  "next_id db = decimal (issued db)"

definition inserted :: "store \<Rightarrow> string \<Rightarrow> pydict \<Rightarrow> store" where
  "inserted db collection_name record =
     db\<lparr> documents := documents db @ [(collection_name, next_id db, record)],
         issued := Suc (issued db) \<rparr>"

text \<open>
  Every identifier in the store was issued by its counter: the condition under which the
  next identifier is new. The empty store meets it, and every write keeps it.
\<close>

definition ids_issued :: "store \<Rightarrow> bool" where
  "ids_issued db =
     list_all (\<lambda>r. fst (snd r) \<in> set (map decimal [0..<issued db])) (documents db)"

text \<open>The number a decimal numeral spells, to tell two numerals apart.\<close>

definition digits_value :: "string \<Rightarrow> nat" where
  "digits_value s = foldl (\<lambda>a c. 10 * a + (of_char c - 48)) 0 s"

text \<open>
  Concrete inputs for the examples: a store that is connected, rejects nothing and is
  empty, and a runtime. No example uses an accessor or a format specification, so the
  runtime is never consulted.
\<close>

definition empty_store :: store where
  "empty_store = \<lparr> unavailable = None, rejects = (\<lambda>c r. None), documents = [], issued = 0 \<rparr>"

definition plain_runtime :: runtime where
  "plain_runtime =
     \<lparr> rt_resolve = (\<lambda>v accessors. Inl (AttributeError [])),
       rt_format = (\<lambda>v spec. Inl (TypeError [])) \<rparr>"

section \<open>Lemmas on the text of values\<close>

lemma decimal_small:
  "decimal 0 = ''0''" "decimal (Suc 0) = ''1''" "decimal 1 = ''1''" "decimal 2 = ''2''"
  by code_simp+

lemma repr_char_plain:
  "printable c \<Longrightarrow> c \<noteq> CHR 0x27 \<Longrightarrow> c \<noteq> CHR 0x5C \<Longrightarrow> repr_char (CHR 0x27) c = [c]"
  by (auto simp: repr_char_def printable_def)

lemma str_repr_plain:
  assumes "list_all (\<lambda>c. printable c \<and> c \<noteq> CHR 0x27 \<and> c \<noteq> CHR 0x5C) x"
  shows "str_repr x = [CHR 0x27] @ x @ [CHR 0x27]"
proof -
  from assms have "CHR 0x27 \<notin> set x"
    by (auto simp: list_all_iff)
  moreover from assms have "concat (map (repr_char (CHR 0x27)) x) = x"
    by (induction x) (simp_all add: repr_char_plain)
  ultimately show ?thesis
    by (simp add: str_repr_def Let_def)
qed

section \<open>Lemmas on \<^verbatim>\<open>str.format\<close>\<close>

lemma MarkupIterator_next_literal:
  "brace_free s \<Longrightarrow> s \<noteq> [] \<Longrightarrow> MarkupIterator_next s = Inr (Some (s, None, []))"
proof -
  assume "brace_free s" and ne: "s \<noteq> []"
  then have tw: "takeWhile (\<lambda>c. \<not> brace c) s = s"
    and dw: "dropWhile (\<lambda>c. \<not> brace c) s = []"
    by (simp_all add: brace_free_def list_all_iff)
  show ?thesis
    by (simp add: MarkupIterator_next_def tw dw ne)
qed

lemma do_markup_Nil: "do_markup expand rt kwargs [] = Inr []"
  by (simp add: do_markup.simps MarkupIterator_next_def)

lemma do_markup_literal:
  "brace_free s \<Longrightarrow> do_markup expand rt kwargs s = Inr s"
  by (cases "s = []") (simp_all add: do_markup_Nil do_markup.simps [of _ _ _ s] MarkupIterator_next_literal)

lemma MarkupIterator_next_prepend:
  assumes "brace_free lit" and "s \<noteq> []"
  shows "MarkupIterator_next (lit @ s) =
     (case MarkupIterator_next s of
        Inl e \<Rightarrow> Inl e
      | Inr None \<Rightarrow> Inr None
      | Inr (Some (l, f, r)) \<Rightarrow> Inr (Some (lit @ l, f, r)))"
proof -
  from assms(1) have nb: "\<And>c. c \<in> set lit \<Longrightarrow> \<not> brace c"
    by (simp add: brace_free_def list_all_iff)
  have tw: "takeWhile (\<lambda>c. \<not> brace c) (lit @ s) = lit @ takeWhile (\<lambda>c. \<not> brace c) s"
    using nb by (simp add: takeWhile_append2)
  have dw: "dropWhile (\<lambda>c. \<not> brace c) (lit @ s) = dropWhile (\<lambda>c. \<not> brace c) s"
    using nb by (simp add: dropWhile_append2)
  from assms(2) have ne: "lit @ s \<noteq> []" by simp
  show ?thesis
  proof (cases "dropWhile (\<lambda>c. \<not> brace c) s")
    case Nil
    show ?thesis
      by (simp add: MarkupIterator_next_def tw dw Nil assms(2) del: dropWhile_eq_Nil_conv)
  next
    case (Cons c after)
    show ?thesis
      by (auto simp: MarkupIterator_next_def tw dw Cons assms(2) Let_def split: sum.splits)
  qed
qed

lemma MarkupIterator_next_not_end:
  "s \<noteq> [] \<Longrightarrow> MarkupIterator_next s \<noteq> Inr None"
  by (auto simp: MarkupIterator_next_def Let_def split: list.splits sum.splits)

lemma do_markup_prepend:
  assumes "brace_free lit"
  shows "do_markup expand rt kwargs (lit @ s) =
     (case do_markup expand rt kwargs s of Inl e \<Rightarrow> Inl e | Inr out \<Rightarrow> Inr (lit @ out))"
proof (cases "s = []")
  case True
  with assms show ?thesis by (simp add: do_markup_Nil do_markup_literal)
next
  case False
  show ?thesis
    by (subst do_markup.simps, subst (2) do_markup.simps)
       (simp add: MarkupIterator_next_prepend [OF assms False]
             MarkupIterator_next_not_end [OF False]
             split: sum.splits option.splits prod.splits)
qed

lemma field_name_scan_plain:
  "list_all (\<lambda>c. c \<notin> set ''{}[].!:'') x \<Longrightarrow>
   field_name_scan False (x @ CHR ''}'' # rest) = Inr (x, CHR ''}'', rest)"
  by (induction x) (auto simp: cons_to_def)

lemma parse_field_plain:
  "list_all (\<lambda>c. c \<notin> set ''{}[].!:'') x \<Longrightarrow>
   parse_field (x @ CHR ''}'' # rest) =
     Inr (\<lparr> field_name = x, conversion = None, format_spec = [],
            format_spec_needs_expanding = False \<rparr>, rest)"
  by (simp add: parse_field_def field_name_scan_plain)

lemma MarkupIterator_next_field:
  assumes "list_all (\<lambda>c. c \<notin> set ''{}[].!:'') x"
  shows "MarkupIterator_next (CHR ''{'' # x @ CHR ''}'' # rest) =
     Inr (Some ([], Some \<lparr> field_name = x, conversion = None, format_spec = [],
                           format_spec_needs_expanding = False \<rparr>, rest))"
proof -
  have "hd (x @ CHR ''}'' # rest) \<noteq> CHR ''{''"
    using assms by (cases x) auto
  then show ?thesis
    by (simp add: MarkupIterator_next_def brace_def parse_field_plain [OF assms])
qed

lemma get_integer_plain:
  "x \<noteq> [] \<Longrightarrow> digitval (hd x) = None \<Longrightarrow> get_integer x = Inr None"
  by (cases x) (simp_all add: get_integer_def)

lemma get_field_object_plain:
  assumes "plain_key x"
  shows "get_field_object rt kwargs x =
     (case map_of kwargs x of None \<Rightarrow> Inl (KeyError (PStr x)) | Some v \<Rightarrow> Inr (the_object rt v))"
proof -
  from assms have na: "\<And>c. c \<in> set x \<Longrightarrow> \<not> accessor_start c"
    by (auto simp: plain_key_def list_all_iff accessor_start_def)
  then have tw: "takeWhile (\<lambda>c. \<not> accessor_start c) x = x"
    and dw: "dropWhile (\<lambda>c. \<not> accessor_start c) x = []"
    by (simp_all add: takeWhile_eq_all_conv)
  from assms have "get_integer x = Inr None" and "x \<noteq> []"
    by (simp_all add: plain_key_def get_integer_plain)
  then show ?thesis
    by (simp add: get_field_object_def tw dw split: option.splits)
qed

lemma output_markup_plain:
  assumes "plain_key x"
  shows "output_markup expand rt kwargs
           \<lparr> field_name = x, conversion = None, format_spec = [],
             format_spec_needs_expanding = False \<rparr> =
     (case map_of kwargs x of None \<Rightarrow> Inl (KeyError (PStr x)) | Some v \<Rightarrow> Inr (py_str v))"
  by (simp add: output_markup_def get_field_object_plain [OF assms] the_object_def
           split: option.splits)

lemma do_markup_field:
  assumes "plain_key x"
  shows "do_markup expand rt kwargs (CHR ''{'' # x @ CHR ''}'' # rest) =
     (case map_of kwargs x of
        None \<Rightarrow> Inl (KeyError (PStr x))
      | Some v \<Rightarrow>
          (case do_markup expand rt kwargs rest of
             Inl e \<Rightarrow> Inl e
           | Inr out \<Rightarrow> Inr (py_str v @ out)))"
proof -
  from assms have "list_all (\<lambda>c. c \<notin> set ''{}[].!:'') x"
    by (simp add: plain_key_def)
  from MarkupIterator_next_field [OF this] show ?thesis
    by (subst do_markup.simps)
       (simp add: output_markup_plain [OF assms] split: option.splits sum.splits)
qed

lemma do_markup_pieces:
  "supplied kwargs ps \<Longrightarrow>
   do_markup expand rt kwargs (body_of ps @ s) =
     (case do_markup expand rt kwargs s of
        Inl e \<Rightarrow> Inl e
      | Inr out \<Rightarrow> Inr (fill kwargs ps @ out))"
proof (induction ps rule: body_of.induct)
  case 1
  show ?case by (simp split: sum.splits)
next
  case (2 t ps)
  then show ?case
    by (simp add: do_markup_prepend split: sum.splits)
next
  case (3 x ps)
  then show ?case
    by (auto simp: do_markup_field split: sum.splits)
qed

lemma str_format_pieces:
  "supplied kwargs ps \<Longrightarrow> str_format rt (body_of ps) kwargs = Inr (fill kwargs ps)"
  using do_markup_pieces [of kwargs ps _ rt "[]"]
  by (simp add: str_format_def numeral_2_eq_2 do_markup_Nil)

lemma str_format_first_missing:
  assumes "supplied kwargs ps" and "plain_key x" and "map_of kwargs x = None"
  shows "str_format rt (body_of ps @ CHR ''{'' # x @ CHR ''}'' # rest) kwargs = Inl (KeyError (PStr x))"
  by (simp add: str_format_def numeral_2_eq_2 do_markup_pieces [OF assms(1)]
        do_markup_field [OF assms(2)] assms(3))

section \<open>Lemmas on \<^verbatim>\<open>generate_document\<close>\<close>

lemma generate_document_merge_fails:
  assumes "call_format rt (dict_get_default (template payload) ''body'' (PStr [])) (variables payload) = Inl e"
  shows "generate_document rt payload db = (Inl (generate_except e), db)"
  using assms by (simp add: generate_document_def)

lemma generate_document_merged:
  assumes "call_format rt (dict_get_default (template payload) ''body'' (PStr [])) (variables payload) = Inr filled"
    and "accepts db ''document'' (persisted_document payload filled)"
  shows "generate_document rt payload db =
           (Inr [(''id'', PStr (next_id db)), (''content'', PStr filled)],
            inserted db ''document'' (persisted_document payload filled))"
  using assms
  by (simp add: generate_document_def create_document_def accepts_def persisted_document_def
        dict_get_default_def inserted_def next_id_def Let_def)

lemma generate_document_store_fails:
  assumes "call_format rt (dict_get_default (template payload) ''body'' (PStr [])) (variables payload) = Inr filled"
    and "\<not> accepts db ''document'' (persisted_document payload filled)"
  shows "\<exists>why. generate_document rt payload db = (Inl (HTTPException 400 why), db)"
  using assms
  by (auto simp: generate_document_def create_document_def accepts_def persisted_document_def
        dict_get_default_def generate_except_def Let_def split: option.splits)

lemma body_lookup:
  "map_of t ''body'' = Some v \<Longrightarrow> dict_get_default t ''body'' d = v"
  by (simp add: dict_get_default_def)

section \<open>Lemmas on dicts and on \<^verbatim>\<open>list_items\<close>\<close>

lemma map_of_dict_set_same: "map_of (dict_set k v d) k = Some v"
  by (induction d) auto

lemma map_of_dict_set_other: "k' \<noteq> k \<Longrightarrow> map_of (dict_set k v d) k' = map_of d k'"
  by (induction d) auto

lemma dict_set_twice: "dict_set k v (dict_set k v d) = dict_set k v d"
  by (induction d) auto

lemma stringify_ids_map:
  "stringify_ids result docs =
     result @ map (\<lambda>d. dict_set ''_id''
                          (PStr (py_str (case dict_get d ''_id'' of None \<Rightarrow> PNone | Some v \<Rightarrow> v))) d)
                docs"
  by (induction docs arbitrary: result) simp_all

section \<open>Lemmas on identifiers and on the store\<close>

lemma of_char_digit_char: "d < 10 \<Longrightarrow> of_char (digit_char d) = 48 + d"
  by (simp add: digit_char_def)

lemma digits_value_decimal: "digits_value (decimal n) = n"
proof (induction n rule: decimal.induct)
  case (1 n)
  show ?case
  proof (cases "n < 10")
    case True
    then show ?thesis
      by (simp add: decimal.simps [of n] digits_value_def of_char_digit_char)
  next
    case False
    then have "digits_value (decimal (n div 10)) = n div 10"
      using 1 by simp
    then show ?thesis
      using False
      by (simp add: decimal.simps [of n] digits_value_def of_char_digit_char)
  qed
qed

lemma decimal_inj: "decimal m = decimal n \<Longrightarrow> m = n"
  by (metis digits_value_decimal)

lemma decimal_not_empty: "decimal n \<noteq> []"
  by (subst decimal.simps) simp

lemma in_collection_inserted:
  "in_collection c (db\<lparr> documents := documents db @ [(c, i, r)], issued := n \<rparr>) =
     in_collection c db @ [(c, i, r)]"
  by (simp add: in_collection_def)

lemma create_document_success:
  assumes "create_document c r db = (Inr i, db')"
  shows "i = decimal (issued db) \<and>
         db' = db\<lparr> documents := documents db @ [(c, i, r)], issued := Suc (issued db) \<rparr> \<and>
         unavailable db = None"
  using assms
  by (auto simp: create_document_def Let_def split: option.splits)

lemma fresh_id:
  assumes "ids_issued db"
  shows "decimal (issued db) \<notin> set (map (\<lambda>r. fst (snd r)) (documents db))"
proof
  assume "decimal (issued db) \<in> set (map (\<lambda>r. fst (snd r)) (documents db))"
  then obtain r where "r \<in> set (documents db)" and "fst (snd r) = decimal (issued db)"
    by auto
  with assms obtain n where "n < issued db" and "decimal n = decimal (issued db)"
    by (auto simp: ids_issued_def list_all_iff)
  then show False
    by (auto dest: decimal_inj)
qed

lemma ids_issued_empty_store: "ids_issued empty_store"
  by (simp add: ids_issued_def empty_store_def)

lemma ids_issued_inserted:
  assumes "ids_issued db"
  shows "ids_issued (db\<lparr> documents := documents db @ [(c, decimal (issued db), r)],
                          issued := Suc (issued db) \<rparr>)"
  using assms
  by (auto simp: ids_issued_def list_all_iff)

lemma lower_names:
  "lower ''Client'' = ''client''" "lower ''Matter'' = ''matter''"
  "lower ''DocumentTemplate'' = ''documenttemplate''" "lower ''Document'' = ''document''"
  "lower ''Task'' = ''task''"
  by code_simp+

section \<open>Properties\<close>

text \<open>
  C1, as stated, fails: with two placeholders and no variable at all, the body contains
  \<^verbatim>\<open>{party_b_name}\<close> and the mapping lacks \<^verbatim>\<open>party_b_name\<close>, yet the detail of the 400
  names \<^verbatim>\<open>party_a_name\<close> only. The merge stops at the first placeholder it cannot fill.
\<close>

theorem missing_variable_detail_names_first_only:
  "sublist ''{party_b_name}'' ''{party_a_name} and {party_b_name}'' \<and>
   map_of ([] :: pydict) ''party_b_name'' = None \<and>
   fst (generate_document plain_runtime
          \<lparr> template = [(''body'', PStr ''{party_a_name} and {party_b_name}'')],
            variables = [] \<rparr> empty_store)
     = Inl (HTTPException 400 (''Missing variable: 'party_a_name'' @ [CHR 0x27])) \<and>
   \<not> sublist ''party_b_name'' (''Missing variable: 'party_a_name'' @ [CHR 0x27])"
proof -
  have a: "sublist ''{party_b_name}'' ''{party_a_name} and {party_b_name}''"
    by code_simp
  have b: "\<not> sublist ''party_b_name'' (''Missing variable: 'party_a_name'' @ [CHR 0x27])"
    by code_simp
  have "str_format plain_runtime ''{party_a_name} and {party_b_name}'' [] =
          Inl (KeyError (PStr ''party_a_name''))"
    using str_format_first_missing [of "[]" "[]" "''party_a_name''" plain_runtime "'' and {party_b_name}''"]
    by (simp add: plain_key_def digitval_def)
  then have c: "fst (generate_document plain_runtime
          \<lparr> template = [(''body'', PStr ''{party_a_name} and {party_b_name}'')],
            variables = [] \<rparr> empty_store)
     = Inl (HTTPException 400 (''Missing variable: 'party_a_name'' @ [CHR 0x27]))"
    by (simp add: generate_document_def dict_get_default_def call_format_def generate_except_def
          str_repr_def repr_char_def printable_def Let_def)
  from a b c show ?thesis by simp
qed

text \<open>
  C1, amended. When the body is literal text without braces and placeholders that all
  have a value, followed by a placeholder \<^verbatim>\<open>{x}\<close> whose plain key \<open>x\<close> the variable
  mapping lacks (so \<open>x\<close> is the first missing variable, and no stray brace stands before
  it), generate-document fails with HTTP 400, the detail is \<^verbatim>\<open>Missing variable: \<close> followed
  by \<^verbatim>\<open>repr(x)\<close>, and the store is left as it was: no Document is persisted. When
  every character of \<open>x\<close> is printable and none is a quote \<^verbatim>\<open>'\<close> or a backslash, as in
  an identifier, \<^verbatim>\<open>repr(x)\<close> is \<open>x\<close> between two quotes, so the detail names \<open>x\<close> as it is.
\<close>

theorem generate_document_missing_variable:
  assumes "map_of (template payload) ''body'' = Some (PStr (body_of ps @ ''{'' @ x @ ''}'' @ rest))"
    and "supplied (variables payload) ps"
    and "plain_key x"
    and "map_of (variables payload) x = None"
  shows "generate_document rt payload db =
           (Inl (HTTPException 400 (''Missing variable: '' @ str_repr x)), db) \<and>
         (list_all (\<lambda>c. printable c \<and> c \<noteq> CHR 0x27 \<and> c \<noteq> CHR 0x5C) x \<longrightarrow>
            str_repr x = [CHR 0x27] @ x @ [CHR 0x27])"
proof -
  have "call_format rt (dict_get_default (template payload) ''body'' (PStr [])) (variables payload)
          = Inl (KeyError (PStr x))"
    using str_format_first_missing [OF assms(2-4)]
    by (simp add: body_lookup [OF assms(1)] call_format_def)
  from generate_document_merge_fails [OF this] str_repr_plain [of x] show ?thesis
    by (simp add: generate_except_def)
qed

theorem generate_document_missing_variable_witness:
  "generate_document plain_runtime
     \<lparr> template = [ (''name'', PStr ''NDA''), (''category'', PStr ''contract''),
                    (''body'', PStr ''Agreement between {party_a_name} and {party_b_name}.'') ],
       variables = [(''party_a_name'', PStr ''Acme'')] \<rparr> empty_store
   = (Inl (HTTPException 400 (''Missing variable: 'party_b_name'' @ [CHR 0x27])), empty_store)"
  using generate_document_missing_variable
    [where ps = "[Text ''Agreement between '', Placeholder ''party_a_name'', Text '' and '']"
       and x = "''party_b_name''" and rest = "''.''" and rt = plain_runtime and db = empty_store
       and payload = "\<lparr> template = [ (''name'', PStr ''NDA''), (''category'', PStr ''contract''),
                    (''body'', PStr ''Agreement between {party_a_name} and {party_b_name}.'') ],
       variables = [(''party_a_name'', PStr ''Acme'')] \<rparr>"]
  by (simp add: brace_free_def plain_key_def brace_def digitval_def
        str_repr_def repr_char_def printable_def Let_def)

text \<open>
  C2, as stated, fails: the body \<^verbatim>\<open>{a} }} {b}\<close> contains the placeholders \<^verbatim>\<open>{a}\<close> and \<^verbatim>\<open>{b}\<close>,
  both variables are supplied, and the content is \<^verbatim>\<open>A } B\<close>: the doubled brace between
  the placeholders comes out as one, so the output is not the body with the two
  placeholders replaced and the rest as it was.
\<close>

theorem merge_rewrites_doubled_brace:
  "''{a} }} {b}'' = [] @ ''{a}'' @ '' }} '' @ ''{b}'' @ [] \<and>
   call_format plain_runtime (PStr ''{a} }} {b}'') [(''a'', PStr ''A''), (''b'', PStr ''B'')]
     = Inr ''A } B'' \<and>
   (case fst (generate_document plain_runtime
                \<lparr> template = [(''body'', PStr ''{a} }} {b}'')],
                  variables = [(''a'', PStr ''A''), (''b'', PStr ''B'')] \<rparr> empty_store) of
      Inl e \<Rightarrow> None
    | Inr response \<Rightarrow> map_of response ''content'') = Some (PStr ''A } B'') \<and>
   ''A } B'' \<noteq> [] @ py_str (PStr ''A'') @ '' }} '' @ py_str (PStr ''B'') @ []"
proof -
  have "str_format plain_runtime ''{a} }} {b}'' [(''a'', PStr ''A''), (''b'', PStr ''B'')] = Inr ''A } B''"
    by code_simp
  then have merged: "call_format plain_runtime (PStr ''{a} }} {b}'') [(''a'', PStr ''A''), (''b'', PStr ''B'')]
                       = Inr ''A } B''"
    by (simp add: call_format_def)
  then have "fst (generate_document plain_runtime
          \<lparr> template = [(''body'', PStr ''{a} }} {b}'')],
            variables = [(''a'', PStr ''A''), (''b'', PStr ''B'')] \<rparr> empty_store)
     = Inr [(''id'', PStr ''0''), (''content'', PStr ''A } B'')]"
    by (simp add: generate_document_def dict_get_default_def create_document_def
          empty_store_def decimal_small Let_def)
  with merged show ?thesis by (simp add: py_str_def)
qed

text \<open>
  C2, amended. For every body made of three texts without braces around two placeholders
  \<^verbatim>\<open>{a}\<close> and \<^verbatim>\<open>{b}\<close> with plain keys, and every variable mapping that has both keys, the
  merge gives the body with \<^verbatim>\<open>{a}\<close> and \<^verbatim>\<open>{b}\<close> replaced by \<^verbatim>\<open>str\<close> of their values and the
  texts as they were; when the store takes the write, the response carries the new
  identifier and that content, and the Document persisted has it as its content. In the
  NDA scenario (the witness) the content is \<^verbatim>\<open>Agreement between Acme and Beta.\<close>
\<close>

theorem generate_document_merges_two_placeholders:
  assumes "map_of (template payload) ''body'' =
             Some (PStr (before @ ''{'' @ a @ ''}'' @ between @ ''{'' @ b @ ''}'' @ after))"
    and "brace_free before" and "brace_free between" and "brace_free after"
    and "plain_key a" and "plain_key b"
    and "map_of (variables payload) a = Some va"
    and "map_of (variables payload) b = Some vb"
    and "filled = before @ py_str va @ between @ py_str vb @ after"
  shows "str_format rt (before @ ''{'' @ a @ ''}'' @ between @ ''{'' @ b @ ''}'' @ after) (variables payload)
           = Inr filled \<and>
         (accepts db ''document'' (persisted_document payload filled) \<longrightarrow>
            generate_document rt payload db =
              (Inr [(''id'', PStr (next_id db)), (''content'', PStr filled)],
               inserted db ''document'' (persisted_document payload filled)))"
proof -
  have "supplied (variables payload) [Text before, Placeholder a, Text between, Placeholder b, Text after]"
    using assms(2-8) by simp
  from str_format_pieces [OF this, of rt]
  have merged: "str_format rt (before @ ''{'' @ a @ ''}'' @ between @ ''{'' @ b @ ''}'' @ after) (variables payload)
                  = Inr filled"
    using assms(7-9) by simp
  then have "call_format rt (dict_get_default (template payload) ''body'' (PStr [])) (variables payload)
          = Inr filled"
    by (simp add: body_lookup [OF assms(1)] call_format_def)
  from generate_document_merged [OF this] merged show ?thesis by simp
qed

theorem generate_document_merges_two_placeholders_witness:
  "generate_document plain_runtime
     \<lparr> template = [ (''name'', PStr ''NDA''), (''category'', PStr ''contract''),
                    (''body'', PStr ''Agreement between {party_a_name} and {party_b_name}.'') ],
       variables = [(''party_a_name'', PStr ''Acme''), (''party_b_name'', PStr ''Beta'')] \<rparr>
     empty_store
   = (Inr [(''id'', PStr ''0''), (''content'', PStr ''Agreement between Acme and Beta.'')],
      empty_store
        \<lparr> documents :=
            [(''document'', ''0'',
              [ (''title'', PStr ''NDA''), (''category'', PStr ''contract''),
                (''content'', PStr ''Agreement between Acme and Beta.''),
                (''template_id'', PNone),
                (''variables'', PDict [(''party_a_name'', PStr ''Acme''),
                                      (''party_b_name'', PStr ''Beta'')]) ])],
          issued := 1 \<rparr>)"
  using generate_document_merges_two_placeholders
    [where before = "''Agreement between ''" and a = "''party_a_name''" and between = "'' and ''"
       and b = "''party_b_name''" and after = "''.''" and va = "PStr ''Acme''" and vb = "PStr ''Beta''"
       and filled = "''Agreement between Acme and Beta.''"
       and rt = plain_runtime and db = empty_store
       and payload = "\<lparr> template = [ (''name'', PStr ''NDA''), (''category'', PStr ''contract''),
                    (''body'', PStr ''Agreement between {party_a_name} and {party_b_name}.'') ],
       variables = [(''party_a_name'', PStr ''Acme''), (''party_b_name'', PStr ''Beta'')] \<rparr>"]
  by (simp add: brace_free_def plain_key_def brace_def digitval_def py_str_def accepts_def
        persisted_document_def inserted_def next_id_def empty_store_def decimal_small)

text \<open>
  C3, as stated, fails: the body \<^verbatim>\<open>Fee: 10}\<close> has no \<^verbatim>\<open>{\<close> and so no placeholder, and the
  merge does not return it: \<^verbatim>\<open>str.format\<close> raises on the single closing brace, and the call
  ends in a 400.
\<close>

theorem merge_rejects_single_closing_brace:
  "CHR ''{'' \<notin> set ''Fee: 10}'' \<and>
   str_format plain_runtime ''Fee: 10}'' [] =
     Inl (ValueError ''Single '}' encountered in format string'') \<and>
   fst (generate_document plain_runtime
          \<lparr> template = [(''body'', PStr ''Fee: 10}'')], variables = [] \<rparr> empty_store)
     = Inl (HTTPException 400 ''Single '}' encountered in format string'')"
proof -
  have a: "str_format plain_runtime ''Fee: 10}'' [] =
     Inl (ValueError ''Single '}' encountered in format string'')"
    by code_simp
  then have "fst (generate_document plain_runtime
          \<lparr> template = [(''body'', PStr ''Fee: 10}'')], variables = [] \<rparr> empty_store)
     = Inl (HTTPException 400 ''Single '}' encountered in format string'')"
    by (simp add: generate_document_def dict_get_default_def call_format_def generate_except_def)
  with a show ?thesis by simp
qed

text \<open>
  C3, amended. For every template body without a brace character (neither \<^verbatim>\<open>{\<close> nor
  \<^verbatim>\<open>}\<close>) and every variable mapping, the empty one included, the merge returns the body
  unchanged.
\<close>

theorem merge_brace_free_body_unchanged:
  "brace_free body \<Longrightarrow> call_format rt (PStr body) kwargs = Inr body"
  by (simp add: call_format_def str_format_def numeral_2_eq_2 do_markup_literal)

theorem merge_brace_free_body_unchanged_witness:
  "call_format plain_runtime (PStr ''Payment is due in 30 days.'') [] = Inr ''Payment is due in 30 days.'' \<and>
   call_format plain_runtime (PStr ''Payment is due in 30 days.'') [(''days'', PInt 30)]
     = Inr ''Payment is due in 30 days.''"
  using merge_brace_free_body_unchanged [of "''Payment is due in 30 days.''" plain_runtime "[]"]
    merge_brace_free_body_unchanged [of "''Payment is due in 30 days.''" plain_runtime "[(''days'', PInt 30)]"]
  by (simp add: brace_free_def brace_def)

text \<open>
  C4, as stated, fails: the collection \<^verbatim>\<open>client\<close> holds one record, a second one is
  created, and listing the collection with limit 1 returns the first record only, whose
  fields are not those of the record just created. The list operation returns the
  first \<^verbatim>\<open>limit\<close> records in insertion order.
\<close>

theorem list_with_limit_one_misses_new_record:
  "fst (create_item ''client'' \<lparr> data = [(''name'', PStr ''Beta'')] \<rparr>
          (snd (create_item ''client'' \<lparr> data = [(''name'', PStr ''Acme'')] \<rparr> empty_store)))
     = Inr [(''id'', PStr ''1'')] \<and>
   list_items ''client'' (Some 1)
     (snd (create_item ''client'' \<lparr> data = [(''name'', PStr ''Beta'')] \<rparr>
             (snd (create_item ''client'' \<lparr> data = [(''name'', PStr ''Acme'')] \<rparr> empty_store))))
     = Inr [[(''name'', PStr ''Acme''), (''_id'', PStr ''0'')]]"
proof -
  let ?db = "empty_store\<lparr> documents := [(''client'', ''0'', [(''name'', PStr ''Acme'')])], issued := 1 \<rparr>"
  let ?db' = "empty_store\<lparr> documents := [(''client'', ''0'', [(''name'', PStr ''Acme'')]),
                                           (''client'', ''1'', [(''name'', PStr ''Beta'')])],
                            issued := 2 \<rparr>"
  have first: "snd (create_item ''client'' \<lparr> data = [(''name'', PStr ''Acme'')] \<rparr> empty_store) = ?db"
    by (simp add: create_item_def create_document_def empty_store_def decimal_small Let_def)
  have second: "create_item ''client'' \<lparr> data = [(''name'', PStr ''Beta'')] \<rparr> ?db
                  = (Inr [(''id'', PStr ''1'')], ?db')"
    by (simp add: create_item_def create_document_def empty_store_def decimal_small Let_def)
  have listed: "list_items ''client'' (Some 1) ?db' = Inr [[(''name'', PStr ''Acme''), (''_id'', PStr ''0'')]]"
    by (simp add: empty_store_def list_items_def get_documents_def in_collection_def py_str_def
          dict_get_def)
  show ?thesis
    unfolding first second using listed by simp
qed

text \<open>
  C4, amended. For every collection name and every record, when the generic create
  operation succeeds and the collection held fewer than \<^verbatim>\<open>limit\<close> records before it,
  listing the same collection with that limit returns, as its last record, the input's
  fields with the new identifier under \<^verbatim>\<open>_id\<close> (every other key as in the input). The
  identifier is a non-empty string, and in a store whose identifiers were all issued by
  its counter it differs from the identifier of every record stored before; the store
  after the write is again such a store, so this holds for each insertion in turn.
\<close>

theorem create_then_list_round_trip:
  assumes "create_item collection payload db = (Inr response, db')"
    and "int (length (in_collection collection db)) < limit"
    and "ids_issued db"
  shows "\<exists>new_id docs.
           response = [(''id'', PStr new_id)] \<and>
           new_id \<noteq> [] \<and>
           new_id \<notin> set (map (\<lambda>r. fst (snd r)) (documents db)) \<and>
           ids_issued db' \<and>
           list_items collection (Some limit) db' = Inr docs \<and>
           docs \<noteq> [] \<and>
           last docs = dict_set ''_id'' (PStr new_id) (data payload) \<and>
           map_of (last docs) ''_id'' = Some (PStr new_id) \<and>
           (\<forall>k. k \<noteq> ''_id'' \<longrightarrow> map_of (last docs) k = map_of (data payload) k)"
proof -
  from assms(1) obtain new_id where
    created: "create_document collection (data payload) db = (Inr new_id, db')"
    and response: "response = [(''id'', PStr new_id)]"
    by (auto simp: create_item_def split: prod.splits sum.splits)
  from create_document_success [OF created] have
    new_id: "new_id = decimal (issued db)"
    and db': "db' = db\<lparr> documents := documents db @ [(collection, new_id, data payload)],
                         issued := Suc (issued db) \<rparr>"
    and up: "unavailable db = None"
    by simp_all
  let ?old = "in_collection collection db"
  let ?render = "\<lambda>r. dict_set ''_id'' (PStr (fst (snd r))) (snd (snd r))"
  let ?str = "\<lambda>d. dict_set ''_id''
                 (PStr (py_str (case dict_get d ''_id'' of None \<Rightarrow> PNone | Some v \<Rightarrow> v))) d"
  let ?docs = "map ?str (map ?render (?old @ [(collection, new_id, data payload)]))"
  from assms(2) have "take (nat limit) (?old @ [(collection, new_id, data payload)])
                        = ?old @ [(collection, new_id, data payload)]"
    by simp
  then have listed: "list_items collection (Some limit) db' = Inr ?docs"
    by (simp add: list_items_def get_documents_def db' up in_collection_inserted stringify_ids_map)
  have last: "last ?docs = dict_set ''_id'' (PStr new_id) (data payload)"
    by (simp add: dict_get_def map_of_dict_set_same py_str_def dict_set_twice)
  have "new_id \<noteq> []"
    by (simp add: new_id decimal_not_empty)
  moreover have "new_id \<notin> set (map (\<lambda>r. fst (snd r)) (documents db))"
    unfolding new_id by (rule fresh_id [OF assms(3)])
  moreover have "ids_issued db'"
    unfolding db' new_id by (rule ids_issued_inserted [OF assms(3)])
  moreover have "?docs \<noteq> []" by simp
  moreover have "map_of (last ?docs) ''_id'' = Some (PStr new_id)"
    unfolding last by (rule map_of_dict_set_same)
  moreover have "\<forall>k. k \<noteq> ''_id'' \<longrightarrow> map_of (last ?docs) k = map_of (data payload) k"
    unfolding last by (simp add: map_of_dict_set_other)
  ultimately show ?thesis
    using response listed last by blast
qed

theorem create_then_list_round_trip_witness:
  "\<exists>new_id docs.
     [(''id'', PStr ''1'')] = [(''id'', PStr new_id)] \<and>
     new_id \<noteq> [] \<and>
     new_id \<notin> set [''0''] \<and>
     list_items ''client'' (Some 2)
       (snd (create_item ''client'' \<lparr> data = [(''name'', PStr ''Beta'')] \<rparr>
               (snd (create_item ''client'' \<lparr> data = [(''name'', PStr ''Acme'')] \<rparr> empty_store))))
       = Inr docs \<and>
     docs \<noteq> [] \<and>
     last docs = [(''name'', PStr ''Beta''), (''_id'', PStr new_id)]"
proof -
  let ?db = "empty_store\<lparr> documents := [(''client'', ''0'', [(''name'', PStr ''Acme'')])], issued := 1 \<rparr>"
  let ?db' = "empty_store\<lparr> documents := [(''client'', ''0'', [(''name'', PStr ''Acme'')]),
                                           (''client'', ''1'', [(''name'', PStr ''Beta'')])],
                            issued := 2 \<rparr>"
  have first: "snd (create_item ''client'' \<lparr> data = [(''name'', PStr ''Acme'')] \<rparr> empty_store) = ?db"
    by (simp add: create_item_def create_document_def empty_store_def decimal_small Let_def)
  have second: "create_item ''client'' \<lparr> data = [(''name'', PStr ''Beta'')] \<rparr> ?db
                  = (Inr [(''id'', PStr ''1'')], ?db')"
    by (simp add: create_item_def create_document_def empty_store_def decimal_small Let_def)
  have room: "int (length (in_collection ''client'' ?db)) < 2"
    by (simp add: in_collection_def empty_store_def)
  have issued: "ids_issued ?db"
    by (simp add: ids_issued_def empty_store_def decimal_small)
  from create_then_list_round_trip [OF second room issued] first second
  show ?thesis
    by (auto simp: empty_store_def)
qed

text \<open>
  C5. The default-template catalog always returns exactly three entries, and the keys of
  each entry are exactly \<^verbatim>\<open>name\<close>, \<^verbatim>\<open>category\<close>, \<^verbatim>\<open>variables\<close>, \<^verbatim>\<open>body\<close>, in that order. The
  operation is a constant: it has no store (and no other) argument to depend on, so the
  answer is the same whether or not a store is available.
\<close>

theorem default_templates_three_fixed_fields:
  "length default_templates = 3 \<and>
   map (map fst) default_templates =
     replicate 3 [''name'', ''category'', ''variables'', ''body'']"
  by (simp add: default_templates_def numeral_3_eq_3)



text \<open>
  C7. For every environment and every state of the store connection (the import of
  \<^verbatim>\<open>db\<close> raising, \<^verbatim>\<open>db\<close> absent, \<^verbatim>\<open>db\<close> connected, \<^verbatim>\<open>db\<close> connected but failing to list its
  collections), the diagnostic operation returns a status object and raises nothing. The
  object says which state it met (in \<^verbatim>\<open>database\<close> and \<^verbatim>\<open>connection_status\<close>), says for the
  connection string and for the database name whether the variable has a value (an empty
  value counts as not set), and lists the first ten collection names at most.
\<close>

theorem test_database_reports_and_never_raises:
  "\<exists>r. test_database env imp = Inr r \<and>
     backend r = Marked CheckMark '' Running'' \<and>
     database r =
       (case imp of
          ImportRaises e \<Rightarrow> Marked CrossMark ('' Error: '' @ take 50 (exn_str e))
        | Imported None \<Rightarrow> Marked WarningSign ''  Available but not initialized''
        | Imported (Some db) \<Rightarrow>
            (case list_collection_names db of
               Inr names \<Rightarrow> Marked CheckMark '' Connected & Working''
             | Inl e \<Rightarrow> Marked WarningSign (''  Connected but Error: '' @ take 50 (exn_str e)))) \<and>
     connection_status r =
       (case imp of Imported (Some db) \<Rightarrow> ''Connected'' | _ \<Rightarrow> ''Not Connected'') \<and>
     database_url r =
       Some (if DATABASE_URL env = None \<or> DATABASE_URL env = Some [] then Marked CrossMark '' Not Set''
             else Marked CheckMark '' Set'') \<and>
     database_name r =
       Some (if DATABASE_NAME env = None \<or> DATABASE_NAME env = Some [] then Marked CrossMark '' Not Set''
             else Marked CheckMark '' Set'') \<and>
     collections r =
       (case imp of
          Imported (Some db) \<Rightarrow>
            (case list_collection_names db of Inr names \<Rightarrow> take 10 names | Inl e \<Rightarrow> [])
        | _ \<Rightarrow> []) \<and>
     length (collections r) \<le> 10"
  by (auto simp: test_database_def set_or_not_def Let_def split: db_import.splits option.splits sum.splits)

text \<open>
  C8. When the schema declarations import, the schema-introspection operation returns,
  under \<^verbatim>\<open>collections\<close>, one entry for each of the five declared record kinds, in the
  order Client, Matter, DocumentTemplate, Document, Task: the lowercase name of the kind,
  and under \<^verbatim>\<open>fields\<close> every field of the kind, in declaration order, with the type
  descriptor of its annotation. When the introspection raises, it returns the payload
  \<^verbatim>\<open>{"error": str(e)}\<close>, an ordinary response and not an HTTP failure.
\<close>

theorem schema_overview_five_kinds_or_error:
  "schema_overview describe None =
     [(''collections'', PList
       [
         PDict [ (''name'', PStr ''client''),
                 (''fields'', PDict
                 [
                   (''name'', PStr (describe Str)),
                   (''email'', PStr (describe (Optional EmailStr))),
                   (''phone'', PStr (describe (Optional Str))),
                   (''company_type'', PStr (describe (Optional Str))),
                   (''jurisdiction'', PStr (describe (Optional Str))),
                   (''founders'', PStr (describe (Optional (ListOf Dict)))) ]) ],
         PDict [ (''name'', PStr ''matter''),
                 (''fields'', PDict
                 [
                   (''client_id'', PStr (describe Str)),
                   (''title'', PStr (describe Str)),
                   (''status'', PStr (describe Str)),
                   (''description'', PStr (describe (Optional Str))),
                   (''tags'', PStr (describe (Optional (ListOf Str)))) ]) ],
         PDict [ (''name'', PStr ''documenttemplate''),
                 (''fields'', PDict
                 [
                   (''name'', PStr (describe Str)),
                   (''category'', PStr (describe Str)),
                   (''variables'', PStr (describe (ListOf Str))),
                   (''body'', PStr (describe Str)) ]) ],
         PDict [ (''name'', PStr ''document''),
                 (''fields'', PDict
                 [
                   (''client_id'', PStr (describe (Optional Str))),
                   (''matter_id'', PStr (describe (Optional Str))),
                   (''title'', PStr (describe Str)),
                   (''category'', PStr (describe Str)),
                   (''content'', PStr (describe Str)),
                   (''template_id'', PStr (describe (Optional Str))),
                   (''variables'', PStr (describe (Optional (DictOf Str Str)))) ]) ],
         PDict [ (''name'', PStr ''task''),
                 (''fields'', PDict
                 [
                   (''client_id'', PStr (describe (Optional Str))),
                   (''matter_id'', PStr (describe (Optional Str))),
                   (''title'', PStr (describe Str)),
                   (''status'', PStr (describe Str)),
                   (''due_date'', PStr (describe (Optional Date))),
                   (''assignee'', PStr (describe (Optional Str))),
                   (''notes'', PStr (describe (Optional Str))) ]) ] ])] \<and>
   schema_overview describe (Some e) = [(''error'', PStr (exn_str e))]"
  by (simp add: schema_overview_def model_info_def lower_names
        Client_def Matter_def DocumentTemplate_def Document_def Task_def)
text \<open>
  C9. For every successful generate-document call, exactly one record is added to the
  store, in the collection \<^verbatim>\<open>document\<close>, under the identifier the response carries, and
  its \<^verbatim>\<open>template_id\<close> is \<^verbatim>\<open>None\<close>, whatever the template object holds. In the witness the
  template carries \<^verbatim>\<open>id\<close>, \<^verbatim>\<open>_id\<close> and \<^verbatim>\<open>template_id\<close> fields of its own.
\<close>

theorem generate_document_template_id_none:
  assumes "generate_document rt payload db = (Inr response, db')"
  shows "\<exists>new_id doc.
           documents db' = documents db @ [(''document'', new_id, doc)] \<and>
           map_of doc ''template_id'' = Some PNone \<and>
           map_of response ''id'' = Some (PStr new_id)"
  using assms
  by (auto simp: generate_document_def create_document_def Let_def
           split: sum.splits option.splits)

theorem generate_document_template_id_none_witness:
  "\<exists>new_id doc.
     documents (snd (generate_document plain_runtime
                       \<lparr> template = [ (''id'', PStr ''tpl-42''), (''_id'', PStr ''tpl-42''),
                                      (''template_id'', PStr ''tpl-42''), (''name'', PStr ''Offer''),
                                      (''body'', PStr ''Welcome.'') ],
                         variables = [] \<rparr> empty_store))
       = documents empty_store @ [(''document'', new_id, doc)] \<and>
     map_of doc ''template_id'' = Some PNone \<and>
     map_of [(''id'', PStr ''0''), (''content'', PStr ''Welcome.'')] ''id'' = Some (PStr new_id)"
proof -
  have "call_format plain_runtime (PStr ''Welcome.'') [] = Inr ''Welcome.''"
    by (simp add: call_format_def str_format_def numeral_2_eq_2 do_markup_literal
          brace_free_def brace_def)
  then have "generate_document plain_runtime
               \<lparr> template = [ (''id'', PStr ''tpl-42''), (''_id'', PStr ''tpl-42''),
                              (''template_id'', PStr ''tpl-42''), (''name'', PStr ''Offer''),
                              (''body'', PStr ''Welcome.'') ],
                 variables = [] \<rparr> empty_store
             = (Inr [(''id'', PStr ''0''), (''content'', PStr ''Welcome.'')],
                snd (generate_document plain_runtime
                       \<lparr> template = [ (''id'', PStr ''tpl-42''), (''_id'', PStr ''tpl-42''),
                                      (''template_id'', PStr ''tpl-42''), (''name'', PStr ''Offer''),
                                      (''body'', PStr ''Welcome.'') ],
                         variables = [] \<rparr> empty_store))"
    by (simp add: generate_document_def dict_get_default_def create_document_def empty_store_def
          decimal_small Let_def)
  from generate_document_template_id_none [OF this] show ?thesis .
qed

text \<open>
  C10, as stated, fails: it promises a persisted Document and a response with empty
  content for every call whose template lacks \<^verbatim>\<open>body\<close>, but when the store is
  unavailable the call ends in a 400 and nothing is persisted.
\<close>

theorem missing_body_store_unavailable:
  "map_of ([] :: pydict) ''body'' = None \<and>
   fst (generate_document plain_runtime \<lparr> template = [], variables = [] \<rparr>
          (empty_store\<lparr> unavailable := Some ''Database not available'' \<rparr>))
     = Inl (HTTPException 400 ''Database not available'') \<and>
   documents (snd (generate_document plain_runtime \<lparr> template = [], variables = [] \<rparr>
                     (empty_store\<lparr> unavailable := Some ''Database not available'' \<rparr>)))
     = []"
proof -
  have "call_format plain_runtime (PStr []) [] = Inr []"
    by (simp add: call_format_def str_format_def numeral_2_eq_2 do_markup_Nil)
  then show ?thesis
    by (simp add: generate_document_def dict_get_default_def create_document_def empty_store_def
          generate_except_def)
qed

text \<open>
  C10, amended. For every generate-document call whose template mapping lacks the
  \<^verbatim>\<open>body\<close> key, the body is taken as the empty string and the merge succeeds, with the
  empty string, for every variable mapping. When the store takes the write, a Document
  with content equal to the empty string is persisted (with title
  \<^verbatim>\<open>Generated Document\<close> when \<^verbatim>\<open>name\<close> is absent too) and the response content is the empty
  string; when the store does not, the call fails with HTTP 400 and the store is unchanged.
\<close>

theorem generate_document_without_body:
  assumes "map_of (template payload) ''body'' = None"
  shows "call_format rt (dict_get_default (template payload) ''body'' (PStr [])) (variables payload)
           = Inr [] \<and>
         (accepts db ''document'' (persisted_document payload []) \<longrightarrow>
            generate_document rt payload db =
              (Inr [(''id'', PStr (next_id db)), (''content'', PStr [])],
               inserted db ''document'' (persisted_document payload [])) \<and>
            map_of (persisted_document payload []) ''content'' = Some (PStr []) \<and>
            (map_of (template payload) ''name'' = None \<longrightarrow>
               map_of (persisted_document payload []) ''title'' = Some (PStr ''Generated Document''))) \<and>
         (\<not> accepts db ''document'' (persisted_document payload []) \<longrightarrow>
            (\<exists>why. generate_document rt payload db = (Inl (HTTPException 400 why), db)))"
proof -
  have merged: "call_format rt (dict_get_default (template payload) ''body'' (PStr [])) (variables payload)
           = Inr []"
    using assms
    by (simp add: dict_get_default_def call_format_def str_format_def numeral_2_eq_2 do_markup_Nil)
  from merged generate_document_merged [OF merged] generate_document_store_fails [OF merged]
  show ?thesis
    by (simp add: persisted_document_def)
qed

theorem generate_document_without_body_witness:
  "generate_document plain_runtime
     \<lparr> template = [(''category'', PStr ''corporate'')], variables = [(''company_name'', PStr ''Acme'')] \<rparr>
     empty_store
   = (Inr [(''id'', PStr ''0''), (''content'', PStr [])],
      empty_store
        \<lparr> documents :=
            [(''document'', ''0'',
              [ (''title'', PStr ''Generated Document''), (''category'', PStr ''corporate''),
                (''content'', PStr []), (''template_id'', PNone),
                (''variables'', PDict [(''company_name'', PStr ''Acme'')]) ])],
          issued := 1 \<rparr>) \<and>
   (\<exists>why. generate_document plain_runtime
            \<lparr> template = [(''category'', PStr ''corporate'')],
              variables = [(''company_name'', PStr ''Acme'')] \<rparr>
            (empty_store\<lparr> unavailable := Some ''Database not available'' \<rparr>)
          = (Inl (HTTPException 400 why), empty_store\<lparr> unavailable := Some ''Database not available'' \<rparr>))"
  using generate_document_without_body
    [where rt = plain_runtime and db = empty_store
       and payload = "\<lparr> template = [(''category'', PStr ''corporate'')],
                        variables = [(''company_name'', PStr ''Acme'')] \<rparr>"]
    generate_document_without_body
    [where rt = plain_runtime and db = "empty_store\<lparr> unavailable := Some ''Database not available'' \<rparr>"
       and payload = "\<lparr> template = [(''category'', PStr ''corporate'')],
                        variables = [(''company_name'', PStr ''Acme'')] \<rparr>"]
  by (simp add: accepts_def persisted_document_def inserted_def next_id_def empty_store_def
        decimal_small)

end
